theory Spec2Isabelle
  imports Complex_Main "HOL-Library.Word"
begin

section \<open>The ssm2044~ filter core\<close>

text \<open>
  A shallow embedding of the signal-processing functions of \<^verbatim>\<open>ssm2044~.c\<close>:
  \<^verbatim>\<open>denormal_fix\<close>, \<^verbatim>\<open>soft_saturation\<close>, \<^verbatim>\<open>compute_filter_coefficients\<close>,
  \<^verbatim>\<open>ssm2044_process_sample\<close>, \<^verbatim>\<open>ssm2044_perform64\<close> and \<^verbatim>\<open>ssm2044_dsp64\<close>.

  The C type \<^verbatim>\<open>double\<close> is read as \<^typ>\<open>real\<close>: every arithmetic operation is exact, and
  \<^verbatim>\<open>tan\<close>, \<^verbatim>\<open>tanh\<close> and \<^verbatim>\<open>fabs\<close> are the mathematical functions. Rounding is therefore
  outside this development; the infinities and NaN enter in a second embedding of the
  per-sample path, at the end of the definitions. The C type \<^verbatim>\<open>short\<close> is a
  16-bit word, tested against zero as C does.
\<close>

subsection \<open>Constants\<close>

definition PI :: real where
  "PI = 3.14159265358979323846"

definition DENORMAL_THRESHOLD :: real where
  "DENORMAL_THRESHOLD = 1 / 10 ^ 15"

definition RESONANCE_SCALE :: real where
  "RESONANCE_SCALE = 4.0"

definition MAX_RESONANCE :: real where
  "MAX_RESONANCE = 4.0"

definition INPUT_DRIVE :: real where
  "INPUT_DRIVE = 1.5"

definition FEEDBACK_DRIVE :: real where
  "FEEDBACK_DRIVE = 2.0"

text \<open>
  Modelled from the spec: the macro \<^verbatim>\<open>CLAMP\<close> comes from the Max SDK header \<^verbatim>\<open>ext.h\<close>,
  which is not part of the sources. The spec only says that a value is clamped to the range
  \<open>[lo, hi]\<close>; the definition below is the SDK's expression
  \<^verbatim>\<open>((a)>(lo)?((a)<(hi)?(a):(hi)):(lo))\<close>, which does exactly that whenever \<open>lo \<le> hi\<close>.
\<close>

definition CLAMP :: "real \<Rightarrow> real \<Rightarrow> real \<Rightarrow> real" where
  "CLAMP a lo hi = (if a > lo then (if a < hi then a else hi) else lo)"

subsection \<open>The filter object\<close>

text \<open>
  The fields of \<^verbatim>\<open>t_ssm2044\<close>, in the order of the struct. The MSP object header \<^verbatim>\<open>ob\<close>
  and the pointer \<^verbatim>\<open>oversample_buffer\<close> are never touched by the functions embedded here
  and are left out.
\<close>

record ssm2044 =
  state1 :: real
  state2 :: real
  state3 :: real
  state4 :: real
  feedback_sample :: real
  sr :: real
  sr_inv :: real
  cutoff_float :: real
  resonance_float :: real
  gain_float :: real
  cutoff_has_signal :: "16 word"
  resonance_has_signal :: "16 word"
  gain_has_signal :: "16 word"
  g :: real
  k :: real
  oversample_factor :: int

subsection \<open>Stateless helpers\<close>

definition denormal_fix :: "real \<Rightarrow> real" where
  "denormal_fix v = (if \<bar>v\<bar> < DENORMAL_THRESHOLD then 0.0 else v)"

definition soft_saturation :: "real \<Rightarrow> real \<Rightarrow> real" where
  "soft_saturation input drive =
     (if drive \<le> 0.0 then input
      else let driven = input * drive;
               saturated = tanh driven
           in saturated / drive)"

subsection \<open>Coefficients\<close>

text \<open>
  Where \<open>omega_warped = -1\<close> the C quotient is \<open>-\<infinity>\<close>, which the following \<^verbatim>\<open>CLAMP\<close> maps
  to \<open>0\<close>; HOL's \<open>x / 0 = 0\<close> is mapped to \<open>0\<close> as well, so the stored \<open>g\<close> agrees.
\<close>

definition compute_filter_coefficients :: "ssm2044 \<Rightarrow> real \<Rightarrow> real \<Rightarrow> ssm2044" where
  "compute_filter_coefficients x cutoff resonance =
     (let cutoff = CLAMP cutoff 20.0 (sr x * 0.45);
          omega = 2.0 * PI * cutoff;
          omega_warped = tan (omega * sr_inv x * 0.5);
          x = x\<lparr>g := omega_warped / (1.0 + omega_warped)\<rparr>;
          x = x\<lparr>g := CLAMP (g x) 0.0 0.99\<rparr>
      in x\<lparr>k := resonance * RESONANCE_SCALE\<rparr>)"

subsection \<open>One sample\<close>

definition ssm2044_process_sample ::
  "ssm2044 \<Rightarrow> real \<Rightarrow> real \<Rightarrow> real \<Rightarrow> real \<Rightarrow> real \<times> ssm2044" where
  "ssm2044_process_sample x input cutoff resonance gain =
     (let x = compute_filter_coefficients x cutoff resonance;
          scaled_input = input * gain;
          saturated_input = soft_saturation scaled_input INPUT_DRIVE;
          gg = g x;
          kk = k x;
          saturated_feedback = soft_saturation (feedback_sample x) FEEDBACK_DRIVE;
          fb_input = saturated_input + kk * saturated_feedback;
          stage1_out = state1 x + gg * (fb_input - state1 x);
          stage2_out = state2 x + gg * (stage1_out - state2 x);
          stage3_out = state3 x + gg * (stage2_out - state3 x);
          stage4_out = state4 x + gg * (stage3_out - state4 x);
          x = x\<lparr>state1 := denormal_fix stage1_out\<rparr>;
          x = x\<lparr>state2 := denormal_fix stage2_out\<rparr>;
          x = x\<lparr>state3 := denormal_fix stage3_out\<rparr>;
          x = x\<lparr>state4 := denormal_fix stage4_out\<rparr>;
          x = x\<lparr>feedback_sample := stage4_out\<rparr>
      in (stage4_out, x))"

subsection \<open>One block\<close>

text \<open>
  A signal vector is the list of the samples that the pointer can still read; \<^verbatim>\<open>*p++\<close>
  takes the head and leaves the tail. Reading past the end of a vector is undefined in C and
  is \<open>None\<close> here. The result of a block is the object and the samples written through
  \<^verbatim>\<open>out\<close>, in order. Every read of a frame precedes the write of that frame and later
  frames read later positions only, so the result is the same when the host lets \<^verbatim>\<open>out\<close>
  share its memory with an input vector.
\<close>

fun next_sample :: "real list \<Rightarrow> (real \<times> real list) option" where
  "next_sample [] = None"
| "next_sample (v # p) = Some (v, p)"

fun perform64_loop ::
  "ssm2044 \<Rightarrow> real list \<Rightarrow> real list \<Rightarrow> real list \<Rightarrow> real list \<Rightarrow> nat
     \<Rightarrow> (ssm2044 \<times> real list) option" where
  "perform64_loop x audio_in cutoff_in resonance_in gain_in 0 = Some (x, [])"
| "perform64_loop x audio_in cutoff_in resonance_in gain_in (Suc n) =
     (case next_sample audio_in of
        None \<Rightarrow> None
      | Some (audio, audio_in) \<Rightarrow>
     (case (if cutoff_has_signal x \<noteq> 0 then next_sample cutoff_in
            else Some (cutoff_float x, cutoff_in)) of
        None \<Rightarrow> None
      | Some (cutoff, cutoff_in) \<Rightarrow>
     (case (if resonance_has_signal x \<noteq> 0 then next_sample resonance_in
            else Some (resonance_float x, resonance_in)) of
        None \<Rightarrow> None
      | Some (resonance, resonance_in) \<Rightarrow>
     (case (if gain_has_signal x \<noteq> 0 then next_sample gain_in
            else Some (gain_float x, gain_in)) of
        None \<Rightarrow> None
      | Some (gain, gain_in) \<Rightarrow>
        (let cutoff = CLAMP cutoff 20.0 20000.0;
             resonance = CLAMP resonance 0.0 MAX_RESONANCE;
             gain = CLAMP gain 0.0 4.0;
             (filtered, x) = ssm2044_process_sample x audio cutoff resonance gain
         in (case perform64_loop x audio_in cutoff_in resonance_in gain_in n of
               None \<Rightarrow> None
             | Some (x, out) \<Rightarrow> Some (x, denormal_fix filtered # out)))))))"

text \<open>
  \<^verbatim>\<open>ins\<close> is the array of the four input vectors. With a negative \<^verbatim>\<open>sampleframes\<close> the
  loop \<^verbatim>\<open>while (n--)\<close> runs off the vectors, which is undefined, as is an \<^verbatim>\<open>ins\<close> with
  fewer than four vectors.
\<close>

definition ssm2044_perform64 ::
  "ssm2044 \<Rightarrow> real list list \<Rightarrow> int \<Rightarrow> (ssm2044 \<times> real list) option" where
  "ssm2044_perform64 x ins sampleframes =
     (if length ins < 4 \<or> sampleframes < 0 then None
      else perform64_loop x (ins ! 0) (ins ! 1) (ins ! 2) (ins ! 3) (nat sampleframes))"

subsection \<open>Sample-rate and connection setup\<close>

text \<open>
  \<^verbatim>\<open>count\<close> is the host's array of connection counts, read at indices 1 to 3; a shorter
  array is an out-of-range read. The quotient \<^verbatim>\<open>1.0 / samplerate\<close> is taken without any
  test; for \<open>samplerate = 0\<close> C yields an infinity where HOL's total division yields \<open>0\<close>, so
  nothing below is stated about \<open>sr_inv\<close> at that rate. Registering the perform routine
  with the host has no effect on the object.
\<close>

definition ssm2044_dsp64 :: "ssm2044 \<Rightarrow> 16 word list \<Rightarrow> real \<Rightarrow> ssm2044 option" where
  "ssm2044_dsp64 x count samplerate =
     (if length count < 4 then None
      else Some (x\<lparr>sr := samplerate,
                  sr_inv := 1.0 / samplerate,
                  cutoff_has_signal := count ! 1,
                  resonance_has_signal := count ! 2,
                  gain_has_signal := count ! 3\<rparr>))"

subsection \<open>Construction\<close>

text \<open>
  The object that \<^verbatim>\<open>ssm2044_new\<close> returns when it is called with an empty argument list
  (\<^verbatim>\<open>argc = 0\<close>) and the host's \<^verbatim>\<open>sys_getsr()\<close> reports \<open>srate\<close>.
\<close>

definition ssm2044_new0 :: "real \<Rightarrow> ssm2044" where
  "ssm2044_new0 srate =
     \<lparr>state1 = 0.0, state2 = 0.0, state3 = 0.0, state4 = 0.0,
      feedback_sample = 0.0,
      sr = srate, sr_inv = 1.0 / srate,
      cutoff_float = 1000.0, resonance_float = 0.5, gain_float = 1.0,
      cutoff_has_signal = 0, resonance_has_signal = 0, gain_has_signal = 0,
      g = 0.0, k = 0.0,
      oversample_factor = 1\<rparr>"

subsection \<open>The per-sample algorithm in the words of the specification\<close>

text \<open>
  The specification describes one sample as eight steps over a sequence \<open>poleState\<close> of
  pole memories: scale the input, saturate it, saturate the feedback memory, form the
  stage input, run the stages in order (each stage's output is the next stage's input),
  store the denormal-protected stage outputs, keep the last stage's output as feedback
  memory, and return it. The result is the output, the new pole states and the new
  feedback memory.
\<close>

fun spec_cascade :: "real \<Rightarrow> real \<Rightarrow> real list \<Rightarrow> real list" where
  "spec_cascade gv stageInput [] = []"
| "spec_cascade gv stageInput (pole # poleState) =
     (let stageOut = pole + gv * (stageInput - pole)
      in stageOut # spec_cascade gv stageOut poleState)"

definition spec_process_sample ::
  "real \<Rightarrow> real \<Rightarrow> real list \<Rightarrow> real \<Rightarrow> real \<Rightarrow> real \<Rightarrow> real \<times> real list \<times> real" where
  "spec_process_sample gv kv poleState feedbackMemory rawInput gain =
     (let scaledInput = rawInput * gain;
          drivenInput = soft_saturation scaledInput INPUT_DRIVE;
          drivenFeedback = soft_saturation feedbackMemory FEEDBACK_DRIVE;
          stageInput = drivenInput + kv * drivenFeedback;
          stageOut = spec_cascade gv stageInput poleState;
          stage4Out = last stageOut
      in (stage4Out, map denormal_fix stageOut, stage4Out))"

subsection \<open>The block in the words of the specification\<close>

text \<open>
  The parameter resolver of the specification: use the current sample of the stream if one
  is attached, the held scalar otherwise, and clamp the value to \<open>[lo, hi]\<close>.
\<close>

definition spec_resolve :: "real option \<Rightarrow> real \<Rightarrow> real \<Rightarrow> real \<Rightarrow> real" where
  "spec_resolve streamValueOrNone heldScalar lo hi =
     (let v = (case streamValueOrNone of Some streamValue \<Rightarrow> streamValue | None \<Rightarrow> heldScalar)
      in max lo (min hi v))"

text \<open>
  The block operation of the specification: for each of \<open>frameCount\<close> frames in order,
  resolve cutoff (to \<open>[20, 20000]\<close>), resonance (to \<open>[0, 4]\<close>) and gain (to \<open>[0, 4]\<close>), then
  process one sample with the resolved values. Frame \<open>i\<close> reads position \<open>i\<close> of the input
  stream and of every attached parameter stream. The output sample is denormal-protected.
\<close>

fun spec_process_block ::
  "ssm2044 \<Rightarrow> nat \<Rightarrow> nat \<Rightarrow> real list \<Rightarrow> real list option \<Rightarrow> real list option
     \<Rightarrow> real list option \<Rightarrow> ssm2044 \<times> real list" where
  "spec_process_block x i 0 inputStream cutoffStream resonanceStream gainStream = (x, [])"
| "spec_process_block x i (Suc frameCount) inputStream cutoffStream resonanceStream gainStream =
     (let cutoff = spec_resolve (map_option (\<lambda>s. s ! i) cutoffStream) (cutoff_float x) 20 20000;
          resonance = spec_resolve (map_option (\<lambda>s. s ! i) resonanceStream) (resonance_float x) 0 4;
          gain = spec_resolve (map_option (\<lambda>s. s ! i) gainStream) (gain_float x) 0 4;
          (filtered, x) = ssm2044_process_sample x (inputStream ! i) cutoff resonance gain;
          (x, outputStream) =
            spec_process_block x (Suc i) frameCount inputStream cutoffStream resonanceStream
              gainStream
      in (x, denormal_fix filtered # outputStream))"

text \<open>
  A parameter stream counts as attached when the connection flag of its inlet is not zero.
  \<open>rest\<close> is what the pointer into a parameter vector can still read after \<open>i\<close> frames:
  the pointer advances only while the flag is set.
\<close>

definition attached :: "16 word \<Rightarrow> real list \<Rightarrow> real list option" where
  "attached has_signal stream = (if has_signal \<noteq> 0 then Some stream else None)"

definition rest :: "16 word \<Rightarrow> nat \<Rightarrow> real list \<Rightarrow> real list" where
  "rest has_signal i p = (if has_signal \<noteq> 0 then drop i p else p)"

subsection \<open>The impulse test of the specification\<close>




section \<open>The per-sample path with the special values of binary64\<close>

text \<open>
  One claim speaks of values that are not finite. For it the per-sample path,
  \<^verbatim>\<open>denormal_fix\<close>, \<^verbatim>\<open>soft_saturation\<close>, \<^verbatim>\<open>compute_filter_coefficients\<close> and
  \<^verbatim>\<open>ssm2044_process_sample\<close>, is embedded a second time over a type \<open>double\<close> that has,
  next to the finite values, the two infinities and NaN.

  On finite values the arithmetic is that of the reals, as in the first embedding: no
  rounding, and no overflow of a finite result to an infinity. The special values follow
  IEEE 754, as C's operators and \<^verbatim>\<open>math.h\<close> do. An operation with a NaN operand yields NaN;
  \<open>\<infinity> - \<infinity>\<close>, \<open>0 * \<infinity>\<close>, \<open>\<infinity> / \<infinity>\<close> and \<open>0 / 0\<close> yield NaN; a non-zero finite value divided
  by zero is an infinity; a finite value divided by an infinity is zero; \<open>tanh (\<plusminus>\<infinity>) = \<plusminus>1\<close>
  and \<open>tan (\<plusminus>\<infinity>)\<close> is NaN; every comparison with a NaN operand is false. There is one zero,
  taken as \<open>+0\<close>.
\<close>

datatype double = Fin real | PInf | NInf | NaN

subsection \<open>Arithmetic, \<^verbatim>\<open>tan\<close>, \<^verbatim>\<open>tanh\<close>, \<^verbatim>\<open>fabs\<close> and the comparisons\<close>

fun d_neg :: "double \<Rightarrow> double" where
  "d_neg (Fin a) = Fin (- a)"
| "d_neg PInf = NInf"
| "d_neg NInf = PInf"
| "d_neg NaN = NaN"

fun d_add :: "double \<Rightarrow> double \<Rightarrow> double" where
  "d_add (Fin a) (Fin b) = Fin (a + b)"
| "d_add (Fin a) PInf = PInf"
| "d_add (Fin a) NInf = NInf"
| "d_add PInf (Fin b) = PInf"
| "d_add PInf PInf = PInf"
| "d_add PInf NInf = NaN"
| "d_add NInf (Fin b) = NInf"
| "d_add NInf PInf = NaN"
| "d_add NInf NInf = NInf"
| "d_add NaN b = NaN"
| "d_add a NaN = NaN"

definition d_sub :: "double \<Rightarrow> double \<Rightarrow> double" where
  "d_sub a b = d_add a (d_neg b)"

fun d_mul :: "double \<Rightarrow> double \<Rightarrow> double" where
  "d_mul (Fin a) (Fin b) = Fin (a * b)"
| "d_mul (Fin a) PInf = (if a = 0 then NaN else if 0 < a then PInf else NInf)"
| "d_mul (Fin a) NInf = (if a = 0 then NaN else if 0 < a then NInf else PInf)"
| "d_mul PInf (Fin b) = (if b = 0 then NaN else if 0 < b then PInf else NInf)"
| "d_mul NInf (Fin b) = (if b = 0 then NaN else if 0 < b then NInf else PInf)"
| "d_mul PInf PInf = PInf"
| "d_mul PInf NInf = NInf"
| "d_mul NInf PInf = NInf"
| "d_mul NInf NInf = PInf"
| "d_mul NaN b = NaN"
| "d_mul a NaN = NaN"

fun d_div :: "double \<Rightarrow> double \<Rightarrow> double" where
  "d_div (Fin a) (Fin b) =
     (if b = 0 then (if a = 0 then NaN else if 0 < a then PInf else NInf) else Fin (a / b))"
| "d_div (Fin a) PInf = Fin 0"
| "d_div (Fin a) NInf = Fin 0"
| "d_div PInf (Fin b) = (if 0 \<le> b then PInf else NInf)"
| "d_div NInf (Fin b) = (if 0 \<le> b then NInf else PInf)"
| "d_div PInf PInf = NaN"
| "d_div PInf NInf = NaN"
| "d_div NInf PInf = NaN"
| "d_div NInf NInf = NaN"
| "d_div NaN b = NaN"
| "d_div a NaN = NaN"



fun d_fabs :: "double \<Rightarrow> double" where
  "d_fabs (Fin a) = Fin \<bar>a\<bar>"
| "d_fabs PInf = PInf"
| "d_fabs NInf = PInf"
| "d_fabs NaN = NaN"

fun d_less :: "double \<Rightarrow> double \<Rightarrow> bool" where
  "d_less (Fin a) (Fin b) = (a < b)"
| "d_less (Fin a) PInf = True"
| "d_less (Fin a) NInf = False"
| "d_less PInf b = False"
| "d_less NInf (Fin b) = True"
| "d_less NInf PInf = True"
| "d_less NInf NInf = False"
| "d_less NaN b = False"
| "d_less a NaN = False"


text \<open>
  A value is finite when it is neither an infinity nor NaN. It is moderate when it is
  finite with a magnitude of at most \<open>10\<^sup>3\<^sup>0\<^sup>0\<close>: the largest finite binary64 value is near
  \<open>1.8 * 10\<^sup>3\<^sup>0\<^sup>8\<close>, and from moderate pole states and a moderate resonance the operations
  of one call cannot overflow in binary64 either.
\<close>

fun is_finite :: "double \<Rightarrow> bool" where
  "is_finite (Fin a) = True"
| "is_finite PInf = False"
| "is_finite NInf = False"
| "is_finite NaN = False"


subsection \<open>The functions\<close>



definition denormal_fix_ieee :: "double \<Rightarrow> double" where
  "denormal_fix_ieee v = (if d_less (d_fabs v) (Fin DENORMAL_THRESHOLD) then Fin 0.0 else v)"





section \<open>Auxiliary facts\<close>

subsection \<open>Bounds on the circular functions\<close>

lemma pi_ge_three: "3 \<le> pi"
  using sin_x_le_x [of "pi / 6"] by (simp add: sin_30)

lemma PI_bounds: "3 < PI" "PI < 3.15"
  by (simp_all add: PI_def)

lemma sin_ge_cubic:
  fixes x :: real
  assumes "0 \<le> x"
  shows "x - x ^ 3 / 6 \<le> sin x"
proof -
  have "\<bar>sin x - (\<Sum>m<3. sin_coeff m * x ^ m)\<bar> \<le> inverse (fact 3) * \<bar>x\<bar> ^ 3"
    by (rule Maclaurin_sin_bound)
  moreover have "(\<Sum>m<3. sin_coeff m * x ^ m) = x"
    by (simp add: sin_coeff_def eval_nat_numeral)
  moreover have "inverse (fact 3) * \<bar>x\<bar> ^ 3 = x ^ 3 / 6"
    using assms by (simp add: eval_nat_numeral)
  ultimately show ?thesis by linarith
qed

lemma cos_lower:
  fixes x d :: real
  assumes "0 \<le> x" "x + d \<le> 3 / 2" "0 < d"
  shows "d - d ^ 3 / 6 \<le> cos x"
proof -
  have "d \<le> pi / 2 - x" using assms pi_ge_three by linarith
  moreover have "pi / 2 - x \<le> pi / 2" using assms by simp
  moreover have "- (pi / 2) \<le> d" using assms pi_ge_three by linarith
  ultimately have "sin d \<le> sin (pi / 2 - x)"
    by (rule_tac sin_monotone_2pi_le) 
  moreover have "sin (pi / 2 - x) = cos x"
    by (simp add: cos_sin_eq)
  moreover have "d - d ^ 3 / 6 \<le> sin d"
    using assms by (intro sin_ge_cubic) simp
  ultimately show ?thesis by linarith
qed

lemma tan_upper:
  fixes x d :: real
  assumes "0 \<le> x" "x + d \<le> 3 / 2" "0 < d" "d \<le> 1"
  shows "tan x \<le> 1 / (d - d ^ 3 / 6)"
proof -
  have "d ^ 3 \<le> d" using assms
    using power_decreasing [of 1 3 d] by simp
  then have pos: "0 < d - d ^ 3 / 6" using assms by linarith
  have c: "d - d ^ 3 / 6 \<le> cos x" using assms by (intro cos_lower) auto
  then have cpos: "0 < cos x" using pos by linarith
  have "tan x = sin x / cos x" by (simp add: tan_def)
  also have "\<dots> \<le> 1 / cos x"
    using cpos by (simp add: divide_right_mono)
  also have "\<dots> \<le> 1 / (d - d ^ 3 / 6)"
    using c pos by (simp add: frac_le)
  finally show ?thesis .
qed

lemma tan_below_minus_one:
  fixes a :: real
  assumes "pi / 2 < a" "a < 3 * pi / 4"
  shows "tan a < - 1"
proof -
  have "tan (a - pi) < tan (- (pi / 4))"
    using assms by (intro tan_monotone) simp_all
  moreover have "tan (a - pi) = tan a"
    using tan_periodic_pi [of "a - pi"] by simp
  ultimately show ?thesis by (simp add: tan_45)
qed


subsection \<open>Clamping\<close>

lemma CLAMP_range: "lo \<le> hi \<Longrightarrow> lo \<le> CLAMP a lo hi \<and> CLAMP a lo hi \<le> hi"
  by (simp add: CLAMP_def)

lemma CLAMP_max_min: "lo \<le> hi \<Longrightarrow> CLAMP a lo hi = max lo (min hi a)"
  by (simp add: CLAMP_def max_def min_def)

lemma CLAMP_high: "lo < hi \<Longrightarrow> hi \<le> a \<Longrightarrow> CLAMP a lo hi = hi"
  by (simp add: CLAMP_def)

lemma CLAMP_le_self: "lo \<le> a \<Longrightarrow> CLAMP a lo hi \<le> a"
  by (simp add: CLAMP_def)

lemma CLAMP_inside: "lo < a \<Longrightarrow> a < hi \<Longrightarrow> CLAMP a lo hi = a"
  by (simp add: CLAMP_def)


subsection \<open>The map \<open>t \<mapsto> t / (1 + t)\<close>\<close>

lemma ratio_mono:
  fixes s t :: real
  assumes "0 \<le> s" "s \<le> t"
  shows "s / (1 + s) \<le> t / (1 + t)"
  using assms by (simp add: frac_le_eq field_simps)

lemma ratio_below:
  fixes t b :: real
  assumes "0 \<le> t" "t \<le> b"
  shows "0 \<le> t / (1 + t)" "t / (1 + t) \<le> b / (1 + b)"
  using assms ratio_mono [of t b] by simp_all

lemma ratio_above_one:
  fixes t :: real
  assumes "t < - 1"
  shows "1 < t / (1 + t)"
proof -
  have "1 + t < 0" using assms by simp
  then show ?thesis by (simp add: neg_less_divide_eq)
qed


subsection \<open>What the coefficient computation stores\<close>

lemma g_coefficients:
  "g (compute_filter_coefficients x c r) =
     CLAMP (tan (2 * PI * CLAMP c 20 (sr x * 0.45) * sr_inv x * 0.5)
            / (1 + tan (2 * PI * CLAMP c 20 (sr x * 0.45) * sr_inv x * 0.5))) 0 0.99"
  by (simp add: compute_filter_coefficients_def Let_def)

lemma g_coefficients_at:
  assumes "2 * PI * CLAMP c 20 (sr x * 0.45) * sr_inv x * 0.5 = w"
  shows "g (compute_filter_coefficients x c r) = CLAMP (tan w / (1 + tan w)) 0 0.99"
  using assms by (simp add: g_coefficients)

lemma k_coefficients: "k (compute_filter_coefficients x c r) = r * RESONANCE_SCALE"
  by (simp add: compute_filter_coefficients_def Let_def)

lemma coefficients_frame:
  "compute_filter_coefficients x c r =
     x\<lparr>g := g (compute_filter_coefficients x c r), k := k (compute_filter_coefficients x c r)\<rparr>"
  by (simp add: compute_filter_coefficients_def Let_def)


subsection \<open>The gain at a sample rate of 30 Hz\<close>

lemma g_low_rate_20: "g (compute_filter_coefficients (ssm2044_new0 30) 20 r) = 0.99"
proof -
  let ?q = "tan (PI * 2 / 3) / (1 + tan (PI * 2 / 3))"
  have "2 * PI * CLAMP 20 20 (sr (ssm2044_new0 30) * 0.45) * sr_inv (ssm2044_new0 30) * 0.5
        = PI * 2 / 3"
    by (simp add: ssm2044_new0_def CLAMP_def)
  then have e: "g (compute_filter_coefficients (ssm2044_new0 30) 20 r) = CLAMP ?q 0 0.99"
    by (rule g_coefficients_at)
  have "pi / 2 < PI * 2 / 3" using PI_bounds pi_less_4 by simp
  moreover have "PI * 2 / 3 < 3 * pi / 4" using PI_bounds pi_ge_three by simp
  ultimately have "tan (PI * 2 / 3) < - 1" by (rule tan_below_minus_one)
  then have "1 < ?q" by (rule ratio_above_one)
  moreover have "(0.99::real) < 1" by simp
  ultimately have "0.99 \<le> ?q" by (meson less_imp_le less_trans)
  have "CLAMP ?q 0 0.99 = 0.99"
  proof (rule CLAMP_high)
    show "(0::real) < 0.99" by simp
    show "0.99 \<le> ?q" by fact
  qed
  with e show ?thesis by simp
qed

lemma g_low_rate_30: "g (compute_filter_coefficients (ssm2044_new0 30) 30 r) < 0.99"
proof -
  let ?t = "tan (PI * 0.45)"
  have "2 * PI * CLAMP 30 20 (sr (ssm2044_new0 30) * 0.45) * sr_inv (ssm2044_new0 30) * 0.5
        = PI * 0.45"
    by (simp add: ssm2044_new0_def CLAMP_def)
  then have e: "g (compute_filter_coefficients (ssm2044_new0 30) 30 r)
                = CLAMP (?t / (1 + ?t)) 0 0.99"
    by (rule g_coefficients_at)
  have "?t \<le> 1 / (0.08 - 0.08 ^ 3 / 6)"
    using PI_bounds by (intro tan_upper) simp_all
  moreover have "1 / (0.08 - 0.08 ^ 3 / 6) \<le> (13::real)"
    by (simp add: power3_eq_cube)
  ultimately have ub: "?t \<le> 13" by linarith
  have "PI * 0.45 < pi / 2" using PI_bounds pi_ge_three by simp
  then have lb: "0 \<le> ?t" using PI_bounds by (intro tan_pos_pi2_le) simp_all
  have "?t / (1 + ?t) \<le> 13 / (1 + 13)" using lb ub by (rule ratio_below)
  moreover have "13 / (1 + 13) < (0.99::real)" by simp
  ultimately have "?t / (1 + ?t) < 0.99" by (rule le_less_trans)
  moreover have "CLAMP (?t / (1 + ?t)) 0 0.99 \<le> ?t / (1 + ?t)"
    using lb ub by (intro CLAMP_le_self ratio_below)
  ultimately have "CLAMP (?t / (1 + ?t)) 0 0.99 < 0.99"
    by (rule le_less_trans [rotated])
  with e show ?thesis by simp
qed


subsection \<open>Denormal protection\<close>

lemma threshold_pos: "0 < DENORMAL_THRESHOLD"
  by (simp add: DENORMAL_THRESHOLD_def)

lemma denormal_fix_flush: "\<bar>v\<bar> < DENORMAL_THRESHOLD \<Longrightarrow> denormal_fix v = 0"
  by (simp add: denormal_fix_def)


lemma denormal_fix_small: "\<bar>denormal_fix v\<bar> < DENORMAL_THRESHOLD \<Longrightarrow> denormal_fix v = 0"
  by (simp add: denormal_fix_def split: if_splits)


lemma stage_below_threshold:
  assumes "0 < gv" "gv < 1"
  shows "DENORMAL_THRESHOLD + gv * (0 - DENORMAL_THRESHOLD) \<noteq> 0"
    and "\<bar>DENORMAL_THRESHOLD + gv * (0 - DENORMAL_THRESHOLD)\<bar> < DENORMAL_THRESHOLD"
proof -
  have e: "DENORMAL_THRESHOLD + gv * (0 - DENORMAL_THRESHOLD) = (1 - gv) * DENORMAL_THRESHOLD"
    by (simp add: algebra_simps)
  have p: "0 < (1 - gv) * DENORMAL_THRESHOLD"
    using assms threshold_pos by simp
  have "(1 - gv) * DENORMAL_THRESHOLD < 1 * DENORMAL_THRESHOLD"
    using assms threshold_pos by (intro mult_strict_right_mono) simp_all
  with p show "DENORMAL_THRESHOLD + gv * (0 - DENORMAL_THRESHOLD) \<noteq> 0"
    and "\<bar>DENORMAL_THRESHOLD + gv * (0 - DENORMAL_THRESHOLD)\<bar> < DENORMAL_THRESHOLD"
    unfolding e by linarith+
qed


subsection \<open>One sample, unfolded\<close>

lemma process_sample_unfold:
  "ssm2044_process_sample x input cutoff resonance gain =
     (let gv = g (compute_filter_coefficients x cutoff resonance);
          kv = k (compute_filter_coefficients x cutoff resonance);
          u = soft_saturation (input * gain) INPUT_DRIVE
              + kv * soft_saturation (feedback_sample x) FEEDBACK_DRIVE;
          o1 = state1 x + gv * (u - state1 x);
          o2 = state2 x + gv * (o1 - state2 x);
          o3 = state3 x + gv * (o2 - state3 x);
          o4 = state4 x + gv * (o3 - state4 x)
      in (o4, x\<lparr>state1 := denormal_fix o1, state2 := denormal_fix o2,
                 state3 := denormal_fix o3, state4 := denormal_fix o4,
                 feedback_sample := o4, g := gv, k := kv\<rparr>))"
  by (simp add: ssm2044_process_sample_def compute_filter_coefficients_def Let_def)

lemma stored_states_fixed:
  "\<exists>v1 v2 v3 v4.
     state1 (snd (ssm2044_process_sample x input cutoff resonance gain)) = denormal_fix v1
     \<and> state2 (snd (ssm2044_process_sample x input cutoff resonance gain)) = denormal_fix v2
     \<and> state3 (snd (ssm2044_process_sample x input cutoff resonance gain)) = denormal_fix v3
     \<and> state4 (snd (ssm2044_process_sample x input cutoff resonance gain)) = denormal_fix v4"
  by (simp add: process_sample_unfold Let_def) blast



subsection \<open>The gain at 48 kHz and a cutoff of 11 kHz\<close>


lemma g_audio_rate:
  assumes "sr x = 48000" "sr_inv x = 1 / 48000"
  shows "1 / 3 \<le> g (compute_filter_coefficients x 11000 r)"
    and "g (compute_filter_coefficients x 11000 r) < 1 / 2"
proof -
  let ?w = "PI * 11 / 48"
  let ?q = "tan ?w / (1 + tan ?w)"
  have "2 * PI * CLAMP 11000 20 (sr x * 0.45) * sr_inv x * 0.5 = ?w"
    using assms by (simp add: CLAMP_def)
  then have e: "g (compute_filter_coefficients x 11000 r) = CLAMP ?q 0 0.99"
    by (rule g_coefficients_at)
  have lo: "pi / 6 \<le> ?w" using PI_bounds pi_less_4 by simp
  have hi: "?w < pi / 4" using PI_bounds pi_ge_three by simp
  have "sqrt 3 \<le> 2"
    by (rule real_le_lsqrt) simp_all
  then have "1 / 2 \<le> 1 / sqrt 3"
    by (simp add: le_divide_eq)
  moreover have "tan (pi / 6) \<le> tan ?w"
    using lo hi by (intro tan_mono_le) (use pi_gt_zero in linarith)+
  then have "1 / sqrt 3 \<le> tan ?w" unfolding tan_30 .
  ultimately have t1: "1 / 2 \<le> tan ?w" by (rule order_trans)
  have "tan ?w < tan (pi / 4)"
    using lo hi by (intro tan_monotone) (use pi_gt_zero in linarith)+
  then have t2: "tan ?w < 1" by (simp add: tan_45)
  have q1: "1 / 3 \<le> ?q" using t1 t2 by (simp add: le_divide_eq)
  have q2: "?q < 1 / 2" using t1 t2 by (simp add: divide_less_eq)
  have "CLAMP ?q 0 0.99 = ?q"
  proof (rule CLAMP_inside)
    have "(0::real) < 1 / 3" by simp
    then show "0 < ?q" using q1 by (rule less_le_trans)
    have "(1::real) / 2 < 0.99" by simp
    with q2 show "?q < 0.99" by (rule less_trans)
  qed
  with e q1 q2 show "1 / 3 \<le> g (compute_filter_coefficients x 11000 r)"
    and "g (compute_filter_coefficients x 11000 r) < 1 / 2" by simp_all
qed

lemma g_audio_rate_new0:
  "0 < g (compute_filter_coefficients ((ssm2044_new0 48000)\<lparr>state4 := v\<rparr>) 11000 r)"
  "g (compute_filter_coefficients ((ssm2044_new0 48000)\<lparr>state4 := v\<rparr>) 11000 r) < 1"
  "0 < g (compute_filter_coefficients ((ssm2044_new0 48000)\<lparr>state1 := v\<rparr>) 11000 r)"
  "g (compute_filter_coefficients ((ssm2044_new0 48000)\<lparr>state1 := v\<rparr>) 11000 r) < 1"
  using g_audio_rate [of "(ssm2044_new0 48000)\<lparr>state4 := v\<rparr>" r]
    g_audio_rate [of "(ssm2044_new0 48000)\<lparr>state1 := v\<rparr>" r]
  by (simp_all add: ssm2044_new0_def)


subsection \<open>Non-expansive stages\<close>






subsection \<open>The first two samples of an impulse\<close>





subsection \<open>What a sample and a block leave alone\<close>

lemma process_sample_frame:
  "(snd (ssm2044_process_sample x input cutoff resonance gain))
      \<lparr>state1 := state1 x, state2 := state2 x, state3 := state3 x, state4 := state4 x,
       feedback_sample := feedback_sample x, g := g x, k := k x\<rparr> = x"
  by (simp add: process_sample_unfold Let_def)

lemma process_sample_keeps:
  "cutoff_float (snd (ssm2044_process_sample x input cutoff resonance gain)) = cutoff_float x"
  "resonance_float (snd (ssm2044_process_sample x input cutoff resonance gain)) = resonance_float x"
  "gain_float (snd (ssm2044_process_sample x input cutoff resonance gain)) = gain_float x"
  "cutoff_has_signal (snd (ssm2044_process_sample x input cutoff resonance gain)) = cutoff_has_signal x"
  "resonance_has_signal (snd (ssm2044_process_sample x input cutoff resonance gain)) = resonance_has_signal x"
  "gain_has_signal (snd (ssm2044_process_sample x input cutoff resonance gain)) = gain_has_signal x"
  "sr (snd (ssm2044_process_sample x input cutoff resonance gain)) = sr x"
  "sr_inv (snd (ssm2044_process_sample x input cutoff resonance gain)) = sr_inv x"
  "oversample_factor (snd (ssm2044_process_sample x input cutoff resonance gain)) = oversample_factor x"
  by (simp_all add: process_sample_unfold Let_def)

lemma frame_compose:
  fixes x x' x'' :: ssm2044
  assumes "x''\<lparr>state1 := state1 x', state2 := state2 x', state3 := state3 x', state4 := state4 x',
       feedback_sample := feedback_sample x', g := g x', k := k x'\<rparr> = x'"
    and "x'\<lparr>state1 := state1 x, state2 := state2 x, state3 := state3 x, state4 := state4 x,
       feedback_sample := feedback_sample x, g := g x, k := k x\<rparr> = x"
  shows "x''\<lparr>state1 := state1 x, state2 := state2 x, state3 := state3 x, state4 := state4 x,
       feedback_sample := feedback_sample x, g := g x, k := k x\<rparr> = x"
  using assms by (cases x, cases x', cases x'') simp

lemma perform64_loop_frame:
  "perform64_loop x audio_in cutoff_in resonance_in gain_in n = Some (x', out) \<Longrightarrow>
     x'\<lparr>state1 := state1 x, state2 := state2 x, state3 := state3 x, state4 := state4 x,
        feedback_sample := feedback_sample x, g := g x, k := k x\<rparr> = x"
proof (induction n arbitrary: x audio_in cutoff_in resonance_in gain_in out)
  case 0
  then show ?case by simp
next
  case (Suc n)
  from Suc.prems obtain audio p1 cutoff p2 resonance p3 gain p4 out' where
    rec: "perform64_loop
            (snd (ssm2044_process_sample x audio (CLAMP cutoff 20 20000)
                    (CLAMP resonance 0 MAX_RESONANCE) (CLAMP gain 0 4)))
            p1 p2 p3 p4 n = Some (x', out')"
    by (auto simp: split_beta Let_def split: option.splits if_splits)
  show ?case
    using Suc.IH [OF rec] process_sample_frame by (rule frame_compose)
qed


subsection \<open>A unit impulse and the silence after it\<close>



















subsection \<open>The gain at 44.1 kHz and a cutoff of 20 kHz\<close>






subsection \<open>The block loop against the specification's block operation\<close>

lemma next_sample_drop:
  "i < length p \<Longrightarrow> next_sample (drop i p) = Some (p ! i, drop (Suc i) p)"
  by (simp add: Cons_nth_drop_Suc [symmetric])

lemma rest_0: "rest has_signal 0 p = p"
  by (simp add: rest_def)

lemma select_sample:
  assumes "has_signal \<noteq> 0 \<Longrightarrow> i < length p"
  shows "(if has_signal \<noteq> 0 then next_sample (rest has_signal i p) else Some (held, rest has_signal i p))
         = Some (case attached has_signal p of Some s \<Rightarrow> s ! i | None \<Rightarrow> held,
                 rest has_signal (Suc i) p)"
  using assms by (simp add: rest_def attached_def next_sample_drop)

lemma resolve_CLAMP:
  "lo \<le> hi \<Longrightarrow>
     CLAMP (case s of Some v \<Rightarrow> v | None \<Rightarrow> held) lo hi = spec_resolve s held lo hi"
  by (simp add: spec_resolve_def CLAMP_max_min Let_def)

lemma perform64_loop_spec:
  assumes "i + n \<le> length audio_in"
    and "cutoff_has_signal x \<noteq> 0 \<Longrightarrow> i + n \<le> length cutoff_in"
    and "resonance_has_signal x \<noteq> 0 \<Longrightarrow> i + n \<le> length resonance_in"
    and "gain_has_signal x \<noteq> 0 \<Longrightarrow> i + n \<le> length gain_in"
  shows "perform64_loop x (drop i audio_in) (rest (cutoff_has_signal x) i cutoff_in)
           (rest (resonance_has_signal x) i resonance_in) (rest (gain_has_signal x) i gain_in) n
         = Some (spec_process_block x i n audio_in
                   (attached (cutoff_has_signal x) cutoff_in)
                   (attached (resonance_has_signal x) resonance_in)
                   (attached (gain_has_signal x) gain_in))"
  using assms
proof (induction n arbitrary: x i)
  case 0
  show ?case by simp
next
  case (Suc n)
  let ?c = "spec_resolve (map_option (\<lambda>s. s ! i) (attached (cutoff_has_signal x) cutoff_in)) (cutoff_float x) 20 20000"
  let ?r = "spec_resolve (map_option (\<lambda>s. s ! i) (attached (resonance_has_signal x) resonance_in)) (resonance_float x) 0 4"
  let ?g = "spec_resolve (map_option (\<lambda>s. s ! i) (attached (gain_has_signal x) gain_in)) (gain_float x) 0 4"
  let ?x' = "snd (ssm2044_process_sample x (audio_in ! i) ?c ?r ?g)"
  have a: "next_sample (drop i audio_in) = Some (audio_in ! i, drop (Suc i) audio_in)"
    using Suc.prems(1) by (intro next_sample_drop) simp
  have c: "(if cutoff_has_signal x \<noteq> 0 then next_sample (rest (cutoff_has_signal x) i cutoff_in)
            else Some (cutoff_float x, rest (cutoff_has_signal x) i cutoff_in))
           = Some (case attached (cutoff_has_signal x) cutoff_in of Some s \<Rightarrow> s ! i | None \<Rightarrow> cutoff_float x,
                   rest (cutoff_has_signal x) (Suc i) cutoff_in)"
    using Suc.prems(2) by (intro select_sample) simp
  have r: "(if resonance_has_signal x \<noteq> 0 then next_sample (rest (resonance_has_signal x) i resonance_in)
            else Some (resonance_float x, rest (resonance_has_signal x) i resonance_in))
           = Some (case attached (resonance_has_signal x) resonance_in of Some s \<Rightarrow> s ! i | None \<Rightarrow> resonance_float x,
                   rest (resonance_has_signal x) (Suc i) resonance_in)"
    using Suc.prems(3) by (intro select_sample) simp
  have g: "(if gain_has_signal x \<noteq> 0 then next_sample (rest (gain_has_signal x) i gain_in)
            else Some (gain_float x, rest (gain_has_signal x) i gain_in))
           = Some (case attached (gain_has_signal x) gain_in of Some s \<Rightarrow> s ! i | None \<Rightarrow> gain_float x,
                   rest (gain_has_signal x) (Suc i) gain_in)"
    using Suc.prems(4) by (intro select_sample) simp
  have cl: "CLAMP (case attached (cutoff_has_signal x) cutoff_in of Some s \<Rightarrow> s ! i | None \<Rightarrow> cutoff_float x) 20 20000 = ?c"
    "CLAMP (case attached (resonance_has_signal x) resonance_in of Some s \<Rightarrow> s ! i | None \<Rightarrow> resonance_float x) 0 MAX_RESONANCE = ?r"
    "CLAMP (case attached (gain_has_signal x) gain_in of Some s \<Rightarrow> s ! i | None \<Rightarrow> gain_float x) 0 4 = ?g"
    by (simp_all add: spec_resolve_def CLAMP_max_min MAX_RESONANCE_def Let_def split: option.splits)
  have k: "cutoff_has_signal ?x' = cutoff_has_signal x"
    "resonance_has_signal ?x' = resonance_has_signal x"
    "gain_has_signal ?x' = gain_has_signal x"
    by (rule process_sample_keeps)+
  have ih: "perform64_loop ?x' (drop (Suc i) audio_in) (rest (cutoff_has_signal x) (Suc i) cutoff_in)
           (rest (resonance_has_signal x) (Suc i) resonance_in) (rest (gain_has_signal x) (Suc i) gain_in) n
         = Some (spec_process_block ?x' (Suc i) n audio_in
                   (attached (cutoff_has_signal x) cutoff_in)
                   (attached (resonance_has_signal x) resonance_in)
                   (attached (gain_has_signal x) gain_in))"
    using Suc.IH [of "Suc i" ?x'] Suc.prems by (simp add: k)
  show ?case
    unfolding perform64_loop.simps a c r g
    by (simp add: cl ih Let_def split_beta)
qed

lemma perform64_spec:
  assumes "0 \<le> sampleframes"
    and "nat sampleframes \<le> length audio_in"
    and "cutoff_has_signal x \<noteq> 0 \<Longrightarrow> nat sampleframes \<le> length cutoff_in"
    and "resonance_has_signal x \<noteq> 0 \<Longrightarrow> nat sampleframes \<le> length resonance_in"
    and "gain_has_signal x \<noteq> 0 \<Longrightarrow> nat sampleframes \<le> length gain_in"
  shows "ssm2044_perform64 x [audio_in, cutoff_in, resonance_in, gain_in] sampleframes
         = Some (spec_process_block x 0 (nat sampleframes) audio_in
                   (attached (cutoff_has_signal x) cutoff_in)
                   (attached (resonance_has_signal x) resonance_in)
                   (attached (gain_has_signal x) gain_in))"
proof -
  have "perform64_loop x (drop 0 audio_in) (rest (cutoff_has_signal x) 0 cutoff_in)
           (rest (resonance_has_signal x) 0 resonance_in) (rest (gain_has_signal x) 0 gain_in)
           (nat sampleframes)
         = Some (spec_process_block x 0 (nat sampleframes) audio_in
                   (attached (cutoff_has_signal x) cutoff_in)
                   (attached (resonance_has_signal x) resonance_in)
                   (attached (gain_has_signal x) gain_in))"
    using assms(2-5) by (intro perform64_loop_spec) simp_all
  then show ?thesis
    using assms(1) by (simp add: ssm2044_perform64_def rest_0)
qed


subsection \<open>The special values: finite arguments, NaN, finiteness\<close>







lemma d_add_NaN [simp]: "d_add a NaN = NaN" "d_add NaN a = NaN"
  by (cases a; simp)+

lemma d_mul_NaN [simp]: "d_mul a NaN = NaN" "d_mul NaN a = NaN"
  by (cases a; simp)+

lemma d_div_NaN [simp]: "d_div a NaN = NaN" "d_div NaN a = NaN"
  by (cases a; simp)+

lemma d_sub_NaN [simp]: "d_sub a NaN = NaN" "d_sub NaN a = NaN"
  by (simp_all add: d_sub_def)


lemma denormal_fix_ieee_infinite:
  "denormal_fix_ieee PInf = PInf" "denormal_fix_ieee NInf = NInf"
  by (simp_all add: denormal_fix_ieee_def)








lemma is_finite_iff: "is_finite v \<longleftrightarrow> (\<exists>r. v = Fin r)"
  by (cases v) simp_all













subsection \<open>Pole states at the threshold\<close>







section \<open>Integrator gain\<close>

text \<open>
  C1. For every cutoff argument, every resonance and every object, whatever its sample
  rate, the integrator gain \<open>g\<close> stored by \<^verbatim>\<open>compute_filter_coefficients\<close> lies in
  \<open>[0, 0.99]\<close> and is therefore below \<open>1\<close>. Nothing is said here about how \<open>g\<close> varies
  with the cutoff.
\<close>

theorem g_bounded:
  "0 \<le> g (compute_filter_coefficients x c r)
   \<and> g (compute_filter_coefficients x c r) \<le> 0.99
   \<and> g (compute_filter_coefficients x c r) < 1.0"
proof -
  have "0 \<le> g (compute_filter_coefficients x c r) \<and> g (compute_filter_coefficients x c r) \<le> 0.99"
    unfolding g_coefficients by (rule CLAMP_range) simp
  then show ?thesis by simp
qed

text \<open>
  The gain is not non-decreasing in the cutoff at every positive sample rate. At a rate of
  \<open>30\<close> Hz the upper cutoff limit \<open>0.45 * 30 = 13.5\<close> lies below the lower limit \<open>20\<close>: a
  cutoff of \<open>20\<close> is kept at \<open>20\<close>, where the warped quotient exceeds \<open>1\<close> and \<open>g\<close> is clamped
  to \<open>0.99\<close>, while a cutoff of \<open>30\<close> is replaced by \<open>13.5\<close>, where \<open>g\<close> is smaller. The gain
  falls although the cutoff rises.
\<close>

theorem g_monotone_counterexample:
  "0 < sr (ssm2044_new0 30)
   \<and> sr_inv (ssm2044_new0 30) = 1 / sr (ssm2044_new0 30)
   \<and> (20::real) \<le> 30
   \<and> g (compute_filter_coefficients (ssm2044_new0 30) 30 0.5)
       < g (compute_filter_coefficients (ssm2044_new0 30) 20 0.5)"
  using g_low_rate_20 [of "0.5"] g_low_rate_30 [of "0.5"] by (simp add: ssm2044_new0_def)

section \<open>Feedback gain\<close>

text \<open>
  C2. For every resonance input, the feedback gain \<open>k\<close> stored by
  \<^verbatim>\<open>compute_filter_coefficients\<close> is the product of the resonance and
  \<^verbatim>\<open>RESONANCE_SCALE = 4.0\<close>: it is divided by nothing and capped by nothing. With the
  resonance clamped to \<open>[0, 4]\<close>, as the block routine does before the call, \<open>k\<close> lies in
  \<open>[0, 16]\<close>.
\<close>

theorem feedback_gain_uncapped:
  "k (compute_filter_coefficients x cutoff resonance) = resonance * 4.0
   \<and> 0 \<le> k (compute_filter_coefficients x cutoff (CLAMP resonance 0.0 MAX_RESONANCE))
   \<and> k (compute_filter_coefficients x cutoff (CLAMP resonance 0.0 MAX_RESONANCE)) \<le> 16.0"
proof -
  have "0 \<le> CLAMP resonance 0 4 \<and> CLAMP resonance 0 4 \<le> 4"
    by (rule CLAMP_range) simp
  then show ?thesis
    by (simp add: k_coefficients RESONANCE_SCALE_def MAX_RESONANCE_def)
qed


text \<open>
  At a resonance of \<open>4\<close> the stored \<open>k\<close> is \<open>16\<close>: above a ceiling of \<open>4.0\<close>, and not the
  compensated value \<open>4 * RESONANCE_SCALE / (1 + 4 * 0.5)\<close>.
\<close>

theorem feedback_gain_counterexample:
  "k (compute_filter_coefficients (ssm2044_new0 48000) 1000 4) = 16
   \<and> \<not> k (compute_filter_coefficients (ssm2044_new0 48000) 1000 4) \<le> 4.0
   \<and> k (compute_filter_coefficients (ssm2044_new0 48000) 1000 4)
       \<noteq> 4 * RESONANCE_SCALE / (1 + 4 * 0.5)"
  by (simp add: k_coefficients RESONANCE_SCALE_def)


section \<open>Saturation\<close>

text \<open>
  C4. For every input \<open>x\<close> and every drive \<open>d > 0\<close>, \<^verbatim>\<open>soft_saturation\<close> returns
  \<open>tanh (x * d) / d\<close>: the hyperbolic tangent of the driven input, divided by the drive,
  with no further term.
\<close>

theorem soft_saturation_tanh:
  "0 < d \<Longrightarrow> soft_saturation x d = tanh (x * d) / d"
  by (simp add: soft_saturation_def)


text \<open>An instance at input \<open>1\<close> and drive \<open>2\<close>.\<close>

theorem soft_saturation_tanh_witness:
  "(0::real) < 2 \<and> soft_saturation 1 2 = tanh (1 * 2) / 2"
  using soft_saturation_tanh [of 2 1] by simp


text \<open>
  At input \<open>1\<close> and drive \<open>2\<close> the result differs from the value with the even-harmonic
  term \<open>0.05 * tanh (x * d * 0.5)\<^sup>2\<close> added before the division.
\<close>

theorem soft_saturation_harmonic_counterexample:
  "(0::real) < 2
   \<and> soft_saturation 1 2 \<noteq> (tanh (1 * 2) + 0.05 * (tanh (1 * 2 * 0.5))\<^sup>2) / 2"
proof -
  have "tanh (1::real) \<noteq> 0" by simp
  then have "0.05 * (tanh (1::real))\<^sup>2 \<noteq> 0" by simp
  then show ?thesis by (simp add: soft_saturation_def)
qed


text \<open>
  C5. For every input \<open>x\<close> and every drive \<open>d \<le> 0\<close>, \<^verbatim>\<open>soft_saturation\<close> returns \<open>x\<close>
  unchanged; for every drive \<open>d > 0\<close> it maps the input \<open>0\<close> to exactly \<open>0\<close>.
\<close>

theorem soft_saturation_identity_zero:
  "(d \<le> 0 \<longrightarrow> soft_saturation x d = x) \<and> (0 < d \<longrightarrow> soft_saturation 0 d = 0)"
  by (simp add: soft_saturation_def)


text \<open>Instances at the drives \<open>0\<close>, \<open>-1\<close> and \<open>2\<close>.\<close>

theorem soft_saturation_identity_zero_witness:
  "((0::real) \<le> 0 \<and> soft_saturation 3 0 = 3)
   \<and> ((- 1::real) \<le> 0 \<and> soft_saturation 3 (- 1) = 3)
   \<and> ((0::real) < 2 \<and> soft_saturation 0 2 = 0)"
  using soft_saturation_identity_zero [of 0 3] soft_saturation_identity_zero [of "- 1" 3]
    soft_saturation_identity_zero [of 2 3]
  by simp


section \<open>Sample-rate setup\<close>

text \<open>
  C6. Given the host's four connection counts, \<^verbatim>\<open>ssm2044_dsp64\<close> always succeeds and
  stores the rate it is handed, whatever its sign, in \<open>sr\<close>; for every rate other than
  zero it stores the reciprocal of that rate in \<open>sr_inv\<close>. No rate is rejected or replaced
  by a default. It also stores the connection counts of inlets 1 to 3.
\<close>

theorem dsp64_stores_rate:
  "4 \<le> length count \<Longrightarrow>
     (case ssm2044_dsp64 x count samplerate of
        None \<Rightarrow> False
      | Some x' \<Rightarrow> sr x' = samplerate
                 \<and> (samplerate \<noteq> 0 \<longrightarrow> sr_inv x' * samplerate = 1)
                 \<and> cutoff_has_signal x' = count ! 1
                 \<and> resonance_has_signal x' = count ! 2
                 \<and> gain_has_signal x' = count ! 3)"
  by (simp add: ssm2044_dsp64_def)


text \<open>An instance at the negative rate \<open>-48000\<close>.\<close>

theorem dsp64_stores_rate_witness:
  "4 \<le> length [1, 1, 0, 0 :: 16 word] \<and> (- 48000 :: real) \<noteq> 0
   \<and> map_option sr (ssm2044_dsp64 (ssm2044_new0 44100) [1, 1, 0, 0] (- 48000)) = Some (- 48000)
   \<and> map_option (\<lambda>x'. sr_inv x' * (- 48000))
        (ssm2044_dsp64 (ssm2044_new0 44100) [1, 1, 0, 0] (- 48000)) = Some 1"
  using dsp64_stores_rate [where count = "[1, 1, 0, 0]" and x = "ssm2044_new0 44100"
      and samplerate = "- 48000"]
  by (auto split: option.splits)


text \<open>
  The rate \<open>-48000\<close> is not rejected: after the call the object holds it, and its
  reciprocal.
\<close>

theorem dsp64_rejects_counterexample:
  "(- 48000 :: real) \<le> 0
   \<and> map_option sr (ssm2044_dsp64 (ssm2044_new0 44100) [1, 1, 0, 0] (- 48000)) = Some (- 48000)
   \<and> map_option sr_inv (ssm2044_dsp64 (ssm2044_new0 44100) [1, 1, 0, 0] (- 48000))
       = Some (- (1 / 48000))"
  by (simp add: ssm2044_dsp64_def)


section \<open>One sample\<close>

text \<open>
  C3. For every filter state and every input, cutoff, resonance and gain, one call of
  \<^verbatim>\<open>ssm2044_process_sample\<close> does what the specification's steps say, with the \<open>g\<close>
  and \<open>k\<close> that \<^verbatim>\<open>compute_filter_coefficients\<close> stores for the cutoff and resonance:
  it scales the input by the gain, saturates it with \<^verbatim>\<open>INPUT_DRIVE\<close>, saturates the feedback
  memory with \<^verbatim>\<open>FEEDBACK_DRIVE\<close>, adds \<open>k\<close> times the latter to the former, runs the four
  one-pole stages in order on that sum, stores the denormal-protected stage outputs (zero
  where the magnitude is below the threshold) in the pole states, stores the unprotected
  output of stage 4 as feedback memory and returns it.
\<close>

theorem process_sample_steps:
  "(fst (ssm2044_process_sample x input cutoff resonance gain),
    [state1 (snd (ssm2044_process_sample x input cutoff resonance gain)),
     state2 (snd (ssm2044_process_sample x input cutoff resonance gain)),
     state3 (snd (ssm2044_process_sample x input cutoff resonance gain)),
     state4 (snd (ssm2044_process_sample x input cutoff resonance gain))],
    feedback_sample (snd (ssm2044_process_sample x input cutoff resonance gain)))
   = spec_process_sample
       (g (compute_filter_coefficients x cutoff resonance))
       (k (compute_filter_coefficients x cutoff resonance))
       [state1 x, state2 x, state3 x, state4 x] (feedback_sample x) input gain"
  by (simp add: process_sample_unfold spec_process_sample_def Let_def)


text \<open>
  The stored pole state is not always the stage output itself. With a first pole state
  equal to the threshold, all else zero and a silent input, at 48 kHz and a cutoff of
  11 kHz, the output of stage 1 is a non-zero value below the threshold, and the state
  stored is \<open>0\<close>.
\<close>

theorem stored_pole_counterexample:
  "state1 (snd (ssm2044_process_sample
      ((ssm2044_new0 48000)\<lparr>state1 := DENORMAL_THRESHOLD\<rparr>) 0 11000 0 1))
   \<noteq> state1 ((ssm2044_new0 48000)\<lparr>state1 := DENORMAL_THRESHOLD\<rparr>)
       + g (compute_filter_coefficients ((ssm2044_new0 48000)\<lparr>state1 := DENORMAL_THRESHOLD\<rparr>) 11000 0)
         * ((soft_saturation (0 * 1) INPUT_DRIVE
             + k (compute_filter_coefficients ((ssm2044_new0 48000)\<lparr>state1 := DENORMAL_THRESHOLD\<rparr>) 11000 0)
               * soft_saturation (feedback_sample ((ssm2044_new0 48000)\<lparr>state1 := DENORMAL_THRESHOLD\<rparr>))
                   FEEDBACK_DRIVE)
            - state1 ((ssm2044_new0 48000)\<lparr>state1 := DENORMAL_THRESHOLD\<rparr>))"
proof -
  let ?x = "(ssm2044_new0 48000)\<lparr>state1 := DENORMAL_THRESHOLD\<rparr>"
  let ?g = "g (compute_filter_coefficients ?x 11000 0)"
  let ?o = "DENORMAL_THRESHOLD + ?g * (0 - DENORMAL_THRESHOLD)"
  have o: "?o \<noteq> 0" "\<bar>?o\<bar> < DENORMAL_THRESHOLD"
    using stage_below_threshold [of ?g] g_audio_rate_new0 [of DENORMAL_THRESHOLD 0]
    by simp_all
  have "state1 (snd (ssm2044_process_sample ?x 0 11000 0 1)) = denormal_fix ?o"
    by (simp add: process_sample_unfold Let_def soft_saturation_def INPUT_DRIVE_def
        FEEDBACK_DRIVE_def k_coefficients ssm2044_new0_def)
  then have "state1 (snd (ssm2044_process_sample ?x 0 11000 0 1)) = 0"
    using o denormal_fix_flush by simp
  moreover have "state1 ?x + ?g * ((soft_saturation (0 * 1) INPUT_DRIVE
             + k (compute_filter_coefficients ?x 11000 0)
               * soft_saturation (feedback_sample ?x) FEEDBACK_DRIVE) - state1 ?x) = ?o"
    by (simp add: soft_saturation_def INPUT_DRIVE_def FEEDBACK_DRIVE_def k_coefficients
        ssm2044_new0_def)
  ultimately show ?thesis using o by simp
qed


section \<open>The state after a sample\<close>




section \<open>Impulse response without feedback\<close>




section \<open>One block\<close>

text \<open>
  C8. When the block routine is given at least \<open>sampleframes\<close> samples in the audio
  vector and in every parameter vector whose signal flag is set, it returns, and its result
  is that of the specification's block operation: for every frame, in order, each of cutoff,
  resonance and gain is the frame's sample of its vector when the parameter's flag is set
  and the held scalar otherwise, is clamped (cutoff to \<open>[20, 20000]\<close>, resonance to
  \<open>[0, 4]\<close>, gain to \<open>[0, 4]\<close>), and only then handed to \<^verbatim>\<open>ssm2044_process_sample\<close>, which
  computes the coefficients from the clamped values. The resolved values lie in their
  ranges.
\<close>

theorem perform64_resolves_parameters:
  "0 \<le> sampleframes \<Longrightarrow>
   nat sampleframes \<le> length audio_in \<Longrightarrow>
   (cutoff_has_signal x \<noteq> 0 \<longrightarrow> nat sampleframes \<le> length cutoff_in) \<Longrightarrow>
   (resonance_has_signal x \<noteq> 0 \<longrightarrow> nat sampleframes \<le> length resonance_in) \<Longrightarrow>
   (gain_has_signal x \<noteq> 0 \<longrightarrow> nat sampleframes \<le> length gain_in) \<Longrightarrow>
     ssm2044_perform64 x [audio_in, cutoff_in, resonance_in, gain_in] sampleframes
       = Some (spec_process_block x 0 (nat sampleframes) audio_in
                 (attached (cutoff_has_signal x) cutoff_in)
                 (attached (resonance_has_signal x) resonance_in)
                 (attached (gain_has_signal x) gain_in))
     \<and> 20 \<le> spec_resolve s held 20 20000 \<and> spec_resolve s held 20 20000 \<le> 20000
     \<and> 0 \<le> spec_resolve s held 0 4 \<and> spec_resolve s held 0 4 \<le> 4"
  using perform64_spec [of sampleframes audio_in x cutoff_in resonance_in gain_in]
  by (simp add: spec_resolve_def Let_def)


text \<open>
  An instance with cutoff and resonance streams attached: a cutoff sample of \<open>50000\<close> and
  a resonance sample of \<open>-1\<close> reach the filter as \<open>20000\<close> and \<open>0\<close>, next to the held gain
  of \<open>1\<close>.
\<close>

theorem perform64_resolves_parameters_witness:
  "0 \<le> (1::int)
   \<and> nat 1 \<le> length [1::real]
   \<and> cutoff_has_signal ((ssm2044_new0 48000)\<lparr>cutoff_has_signal := 1, resonance_has_signal := 1\<rparr>) \<noteq> 0
   \<and> nat 1 \<le> length [50000::real]
   \<and> resonance_has_signal ((ssm2044_new0 48000)\<lparr>cutoff_has_signal := 1, resonance_has_signal := 1\<rparr>) \<noteq> 0
   \<and> nat 1 \<le> length [- 1::real]
   \<and> gain_has_signal ((ssm2044_new0 48000)\<lparr>cutoff_has_signal := 1, resonance_has_signal := 1\<rparr>) = 0
   \<and> ssm2044_perform64 ((ssm2044_new0 48000)\<lparr>cutoff_has_signal := 1, resonance_has_signal := 1\<rparr>)
         [[1], [50000], [- 1], []] 1
       = Some (snd (ssm2044_process_sample
                      ((ssm2044_new0 48000)\<lparr>cutoff_has_signal := 1, resonance_has_signal := 1\<rparr>)
                      1 20000 0 1),
               [denormal_fix (fst (ssm2044_process_sample
                      ((ssm2044_new0 48000)\<lparr>cutoff_has_signal := 1, resonance_has_signal := 1\<rparr>)
                      1 20000 0 1))])"
proof -
  let ?x = "(ssm2044_new0 48000)\<lparr>cutoff_has_signal := 1, resonance_has_signal := 1\<rparr>"
  have f: "cutoff_has_signal ?x = 1" "resonance_has_signal ?x = 1" "gain_has_signal ?x = 0"
    "gain_float ?x = 1"
    by (simp_all add: ssm2044_new0_def)
  show ?thesis
    using perform64_resolves_parameters [where sampleframes = 1 and audio_in = "[1]"
        and x = ?x and cutoff_in = "[50000]" and resonance_in = "[- 1]" and gain_in = "[]"
        and s = "Some 50000" and held = 1000]
    by (simp add: f attached_def spec_resolve_def split_beta)
qed


section \<open>Frame conditions\<close>

text \<open>
  C10. A block processed by \<^verbatim>\<open>ssm2044_perform64\<close>, and a single call of
  \<^verbatim>\<open>ssm2044_process_sample\<close>, leave the held parameter scalars, the three
  signal-connection flags and the sample-rate fields \<open>sr\<close> and \<open>sr_inv\<close> unchanged. Only the
  four pole states, the feedback memory and the coefficients \<open>g\<close> and \<open>k\<close> can differ:
  putting their old values back gives the old object.
\<close>

theorem perform64_frame:
  "(ssm2044_perform64 x ins sampleframes = Some (x', out) \<longrightarrow>
      cutoff_float x' = cutoff_float x \<and> resonance_float x' = resonance_float x
      \<and> gain_float x' = gain_float x
      \<and> cutoff_has_signal x' = cutoff_has_signal x
      \<and> resonance_has_signal x' = resonance_has_signal x
      \<and> gain_has_signal x' = gain_has_signal x
      \<and> sr x' = sr x \<and> sr_inv x' = sr_inv x
      \<and> x'\<lparr>state1 := state1 x, state2 := state2 x, state3 := state3 x, state4 := state4 x,
            feedback_sample := feedback_sample x, g := g x, k := k x\<rparr> = x)
   \<and> (ssm2044_process_sample x input cutoff resonance gain = (filtered, x'') \<longrightarrow>
      cutoff_float x'' = cutoff_float x \<and> resonance_float x'' = resonance_float x
      \<and> gain_float x'' = gain_float x
      \<and> cutoff_has_signal x'' = cutoff_has_signal x
      \<and> resonance_has_signal x'' = resonance_has_signal x
      \<and> gain_has_signal x'' = gain_has_signal x
      \<and> sr x'' = sr x \<and> sr_inv x'' = sr_inv x
      \<and> x''\<lparr>state1 := state1 x, state2 := state2 x, state3 := state3 x, state4 := state4 x,
            feedback_sample := feedback_sample x, g := g x, k := k x\<rparr> = x)"
proof -
  have fields: "cutoff_float y = cutoff_float x \<and> resonance_float y = resonance_float x
      \<and> gain_float y = gain_float x
      \<and> cutoff_has_signal y = cutoff_has_signal x
      \<and> resonance_has_signal y = resonance_has_signal x
      \<and> gain_has_signal y = gain_has_signal x
      \<and> sr y = sr x \<and> sr_inv y = sr_inv x"
    if "y\<lparr>state1 := state1 x, state2 := state2 x, state3 := state3 x, state4 := state4 x,
            feedback_sample := feedback_sample x, g := g x, k := k x\<rparr> = x" for y
    using that by (cases x, cases y) simp
  have block: "x'\<lparr>state1 := state1 x, state2 := state2 x, state3 := state3 x, state4 := state4 x,
            feedback_sample := feedback_sample x, g := g x, k := k x\<rparr> = x"
    if "ssm2044_perform64 x ins sampleframes = Some (x', out)"
    using that by (auto simp: ssm2044_perform64_def split: if_splits dest: perform64_loop_frame)
  have sample: "x''\<lparr>state1 := state1 x, state2 := state2 x, state3 := state3 x, state4 := state4 x,
            feedback_sample := feedback_sample x, g := g x, k := k x\<rparr> = x"
    if "ssm2044_process_sample x input cutoff resonance gain = (filtered, x'')"
    using process_sample_frame [of x input cutoff resonance gain] that by simp
  show ?thesis
    using fields [of x'] fields [of x''] block sample by blast
qed


text \<open>An instance: a block of two frames, and one sample, on the freshly constructed object.\<close>

theorem perform64_frame_witness:
  "ssm2044_perform64 (ssm2044_new0 48000) [[1, 0], [], [], []] 2 \<noteq> None
   \<and> cutoff_float (fst (the (ssm2044_perform64 (ssm2044_new0 48000) [[1, 0], [], [], []] 2))) = 1000
   \<and> sr (fst (the (ssm2044_perform64 (ssm2044_new0 48000) [[1, 0], [], [], []] 2))) = 48000
   \<and> gain_has_signal (fst (the (ssm2044_perform64 (ssm2044_new0 48000) [[1, 0], [], [], []] 2))) = 0
   \<and> gain_float (snd (ssm2044_process_sample (ssm2044_new0 48000) 1 1000 1 1)) = 1
   \<and> sr_inv (snd (ssm2044_process_sample (ssm2044_new0 48000) 1 1000 1 1)) = 1 / 48000"
proof -
  let ?x = "ssm2044_new0 48000"
  have f: "cutoff_has_signal ?x = 0" "resonance_has_signal ?x = 0" "gain_has_signal ?x = 0"
    "cutoff_float ?x = 1000" "sr ?x = 48000" "gain_float ?x = 1" "sr_inv ?x = 1 / 48000"
    by (simp_all add: ssm2044_new0_def)
  have "ssm2044_perform64 ?x [[1, 0], [], [], []] 2
        = Some (spec_process_block ?x 0 (nat 2) [1, 0]
                  (attached (cutoff_has_signal ?x) [])
                  (attached (resonance_has_signal ?x) [])
                  (attached (gain_has_signal ?x) []))"
    by (rule perform64_spec) (simp_all add: f)
  then obtain x' out where r: "ssm2044_perform64 ?x [[1, 0], [], [], []] 2 = Some (x', out)"
    by (metis surj_pair)
  obtain filtered x'' where s: "ssm2044_process_sample ?x 1 1000 1 1 = (filtered, x'')"
    by (metis surj_pair)
  show ?thesis
    using perform64_frame [where x = ?x and ins = "[[1, 0], [], [], []]" and sampleframes = 2
        and x' = x' and out = out and input = 1 and cutoff = 1000 and resonance = 1 and gain = 1
        and filtered = filtered and x'' = x''] r s
    by (simp add: f)
qed

end
